theory Spec2Isabelle
  imports Complex_Main "HOL-Library.Sublist"
begin

section \<open>JavaScript values\<close>

text \<open>
  The migrator (\<^verbatim>\<open>src/src/migrator.js\<close>) handles loosely typed records of a
  commerce platform.  Fields whose JavaScript type matters to the code (truthiness tests,
  \<^verbatim>\<open>indexOf\<close>, the numeric coercion \<^verbatim>\<open>x * 1\<close>) are values of \<open>jsval\<close>.
  \<open>JUndefined\<close> also stands for an absent property: \<^verbatim>\<open>delete o.f\<close> sets the field
  to \<open>JUndefined\<close>.  Numbers are exact rationals (no rounding is modelled) and NaN is the
  \<open>None\<close> of \<open>rat option\<close>.
\<close>

datatype jsval = JUndefined | JNull | JBool bool | JNum rat | JStr string

fun truthy :: "jsval \<Rightarrow> bool" where
  "truthy JUndefined = False"
| "truthy JNull = False"
| "truthy (JBool b) = b"
| "truthy (JNum n) = (n \<noteq> 0)"
| "truthy (JStr s) = (s \<noteq> [])"

text \<open>A numeric platform id used as a condition (\<^verbatim>\<open>destinationPages[page.handle] && ...\<close>):
  an absent key reads \<^verbatim>\<open>undefined\<close>, and the number 0 is falsy.\<close>

fun truthy_id :: "nat option \<Rightarrow> bool" where
  "truthy_id None = False"
| "truthy_id (Some i) = (i \<noteq> 0)"

text \<open>A string that may be null or undefined, used as a condition.\<close>

fun truthy_str :: "string option \<Rightarrow> bool" where
  "truthy_str None = False"
| "truthy_str (Some s) = (s \<noteq> [])"

text \<open>\<^verbatim>\<open>s.indexOf(t)\<close>: the index of the first occurrence of \<open>t\<close> in \<open>s\<close>, or -1.\<close>

fun indexOf_at :: "nat \<Rightarrow> string \<Rightarrow> string \<Rightarrow> int" where
  "indexOf_at i [] t = (if t = [] then int i else - 1)"
| "indexOf_at i (c # cs) t = (if prefix t (c # cs) then int i else indexOf_at (Suc i) cs t)"

definition indexOf :: "string \<Rightarrow> string \<Rightarrow> int" where
  "indexOf s t = indexOf_at 0 s t"

text \<open>
  \<^verbatim>\<open>x * 1\<close> is the numeric coercion of \<open>x\<close>.  The conversion of a string to a number is
  the JavaScript runtime's; it is the parameter \<open>strnum\<close> (\<open>None\<close> is NaN).
\<close>

fun toNumber :: "(string \<Rightarrow> rat option) \<Rightarrow> jsval \<Rightarrow> rat option" where
  "toNumber strnum JUndefined = None"
| "toNumber strnum JNull = Some 0"
| "toNumber strnum (JBool b) = Some (if b then 1 else 0)"
| "toNumber strnum (JNum n) = Some n"
| "toNumber strnum (JStr s) = strnum s"

text \<open>\<^verbatim>\<open>a <= b\<close> on numbers: false when either side is NaN.\<close>

fun js_le :: "rat option \<Rightarrow> rat option \<Rightarrow> bool" where
  "js_le (Some a) (Some b) = (a \<le> b)"
| "js_le _ _ = False"

section \<open>Records of the platform\<close>

text \<open>
  Every REST record carries an id and a handle; the fields the migrator never reads are
  kept as an opaque association list \<open>other_fields\<close>.  A field the code deletes is an option
  (or a \<open>jsval\<close>) that becomes \<open>None\<close> (or \<open>JUndefined\<close>).
\<close>

record entity =
  ident :: nat
  handle :: string
  other_fields :: "(string \<times> jsval) list"

record metafield =
  mf_id :: "nat option"
  namespace :: string
  key :: string
  mf_value :: jsval
  owner_resource :: "string option"
  owner_id :: "nat option"

record article = entity +
  user_id :: jsval
  created_at :: jsval
  deleted_at :: jsval
  published_at :: jsval
  blog_id :: "nat option"

record collection = entity +
  publications :: jsval
  collects :: "nat list option"

record variant =
  v_id :: nat
  v_title :: string
  price :: jsval
  compare_at_price :: jsval
  fulfillment_service :: jsval
  inventory_management :: jsval
  image_id :: jsval

record image =
  img_product_id :: "nat option"
  variant_ids :: "nat list"
  img_fields :: "(string \<times> jsval) list"

record product = entity +
  metafields :: "metafield list option"
  images :: "image list option"
  variants :: "variant list option"

text \<open>GraphQL nodes: files and menus.  Their ids are strings.\<close>

record file_node =
  file_id :: string
  alt :: jsval
  typename :: "string option"
  url :: "string option"
  file_image :: "string option option"

record menu_item =
  item_id :: string
  item_title :: jsval
  item_url :: jsval
  item_type :: jsval

record menu =
  menu_id :: string
  menu_handle :: string
  menu_title :: jsval
  items :: "menu_item list"

text \<open>One answer to the cursor-paged \<^verbatim>\<open>files\<close> query: the JSON text of \<^verbatim>\<open>errors\<close>
  when present, and \<^verbatim>\<open>data.files\<close> when present.\<close>

record files_connection =
  edges :: "file_node list"
  hasNextPage :: bool

record files_response =
  gql_errors :: "string option"
  gql_files :: "files_connection option"

section \<open>The two stores and the calls that change the destination\<close>

text \<open>
  A REST listing is the finite sequence of pages the store answers with; the opaque
  continuation token \<^verbatim>\<open>nextPageParameters\<close> stands for the pages that remain.  The
  cursor-paged file listing is the sequence of the store's successive answers.  A store
  answers every listing call (a rejected listing is not modelled); the calls that change
  the destination can be rejected.
\<close>

record store =
  page_list :: "entity list list"
  blog_list :: "entity list list"
  article_list :: "nat \<Rightarrow> article list list"
  product_list :: "product list list"
  smartCollection_list :: "collection list list"
  customCollection_list :: "collection list list"
  collection_products :: "nat \<Rightarrow> product list list"
  metafield_list :: "(string \<times> nat) option \<Rightarrow> metafield list list"
  files_query :: "files_response list"
  menus_query :: "menu list option"

datatype call =
    PageCreate entity
  | PageDelete nat
  | BlogCreate entity
  | BlogDelete nat
  | ArticleCreate nat article
  | ArticleDelete nat nat
  | ProductCreate product
  | ProductDelete nat
  | ProductImageCreate nat image
  | SmartCollectionCreate collection
  | SmartCollectionDelete nat
  | CustomCollectionCreate collection
  | CustomCollectionDelete nat
  | MetafieldCreate metafield
  | MetafieldDelete "nat option"
  | FileCreate string jsval
  | FileDelete string
  | MenuCreate string jsval "(jsval \<times> jsval \<times> jsval) list"
  | MenuDelete string

text \<open>What is observed of a run: the calls issued to the destination, in order, and the
  lines \<^verbatim>\<open>this.error\<close> prints.  Output below the error level is not modelled, nor
  is the optional dump of source records to disk.\<close>

datatype event = Call call | ConsoleError string

datatype exn = Error string | TypeError | Rejected string

text \<open>The answer to a REST create (\<^verbatim>\<open>newProduct.id\<close>, \<^verbatim>\<open>newProduct.variants\<close>) and the
  payload of a GraphQL mutation (\<^verbatim>\<open>files[..].id\<close> or \<^verbatim>\<open>menu.id\<close>, and \<^verbatim>\<open>userErrors\<close>).\<close>

record created =
  new_id :: nat
  new_variants :: "variant list"

record userError =
  ue_field :: jsval
  message :: string

record mutation_payload =
  result_ids :: "string list"
  userErrors :: "userError list"

text \<open>
  The migrator object: its verbosity, the two stores, and how the destination answers
  each changing call given everything that happened before (\<open>Inl\<close>: the call is
  rejected).  A GraphQL answer of \<open>None\<close> is an envelope without the mutation's payload.
\<close>

record migrator =
  verbosity :: int
  source :: store
  destination :: store
  dest_create :: "event list \<Rightarrow> call \<Rightarrow> string + created"
  dest_delete :: "event list \<Rightarrow> call \<Rightarrow> string + unit"
  dest_graphql :: "event list \<Rightarrow> call \<Rightarrow> string + mutation_payload option"
  stringToNumber :: "string \<Rightarrow> rat option"

section \<open>Awaited computations\<close>

text \<open>An awaited computation extends the list of events and either returns or throws.\<close>

type_synonym 'a run = "event list \<Rightarrow> (exn + 'a) \<times> event list"

definition ret :: "'a \<Rightarrow> 'a run" where
  "ret x tr = (Inr x, tr)"

definition throw :: "exn \<Rightarrow> 'a run" where
  "throw e tr = (Inl e, tr)"

definition and_then :: "'a run \<Rightarrow> ('a \<Rightarrow> 'b run) \<Rightarrow> 'b run" where
  "and_then m f tr = (case m tr of (Inl e, tr') \<Rightarrow> (Inl e, tr') | (Inr x, tr') \<Rightarrow> f x tr')"

definition try_catch :: "'a run \<Rightarrow> (exn \<Rightarrow> 'a run) \<Rightarrow> 'a run" where
  "try_catch m h tr = (case m tr of (Inl e, tr') \<Rightarrow> h e tr' | (Inr x, tr') \<Rightarrow> (Inr x, tr'))"

definition create :: "migrator \<Rightarrow> call \<Rightarrow> created run" where
  "create this c tr =
     (case dest_create this tr c of
        Inl e \<Rightarrow> (Inl (Rejected e), tr @ [Call c])
      | Inr r \<Rightarrow> (Inr r, tr @ [Call c]))"

definition delete :: "migrator \<Rightarrow> call \<Rightarrow> unit run" where
  "delete this c tr =
     (case dest_delete this tr c of
        Inl e \<Rightarrow> (Inl (Rejected e), tr @ [Call c])
      | Inr r \<Rightarrow> (Inr r, tr @ [Call c]))"

definition graphql :: "migrator \<Rightarrow> call \<Rightarrow> mutation_payload option run" where
  "graphql this c tr =
     (case dest_graphql this tr c of
        Inl e \<Rightarrow> (Inl (Rejected e), tr @ [Call c])
      | Inr r \<Rightarrow> (Inr r, tr @ [Call c]))"

text \<open>\<^verbatim>\<open>error(message)\<close>: prints its first argument when the verbosity is at least 1.\<close>

definition error :: "migrator \<Rightarrow> string \<Rightarrow> unit run" where
  "error this msg tr = (Inr (), if verbosity this \<ge> 1 then tr @ [ConsoleError msg] else tr)"

text \<open>\<^verbatim>\<open>asyncForEach\<close>: the callback is awaited on each element in turn; a throw ends the loop.\<close>

fun asyncForEach :: "'a list \<Rightarrow> ('a \<Rightarrow> unit run) \<Rightarrow> unit run" where
  "asyncForEach [] callback tr = (Inr (), tr)"
| "asyncForEach (x # xs) callback tr =
     (case callback x tr of
        (Inl e, tr') \<Rightarrow> (Inl e, tr')
      | (Inr u, tr') \<Rightarrow> asyncForEach xs callback tr')"

section \<open>Paged listings\<close>

text \<open>\<^verbatim>\<open>list(params)\<close>: the items of the next page, and \<^verbatim>\<open>nextPageParameters\<close>
  (\<open>None\<close> is \<^verbatim>\<open>undefined\<close>).\<close>

fun list_call :: "'a list list \<Rightarrow> 'a list \<times> 'a list list option" where
  "list_call [] = ([], None)"
| "list_call [p] = (p, None)"
| "list_call (p # ps) = (p, Some ps)"

text \<open>The loop \<^verbatim>\<open>do { xs = await list(params); xs.forEach(x => acc.push(x));
  params = xs.nextPageParameters } while (params !== undefined)\<close>.\<close>

function walk :: "'a list list \<Rightarrow> 'a list" where
  "walk params =
     (case list_call params of
        (xs, None) \<Rightarrow> xs
      | (xs, Some nxt) \<Rightarrow> xs @ walk nxt)"
  by pat_completeness auto
termination
  apply (relation "measure length")
   apply simp
  subgoal for params xs nxt by (cases params rule: list_call.cases) auto
  done

text \<open>The loop that fills a destination index while it walks the listing:
  \<^verbatim>\<open>do { xs = await list(params); xs.forEach(x => index[x.handle] = x.id);
  params = xs.nextPageParameters } while (params !== undefined)\<close>; \<open>index_entry\<close> is
  the assignment \<^verbatim>\<open>index[x.handle] = x.id\<close>.\<close>

definition index_entry :: "'a entity_scheme \<Rightarrow> (string \<rightharpoonup> nat) \<Rightarrow> (string \<rightharpoonup> nat)" where
  "index_entry x index = index(handle x \<mapsto> ident x)"

function index_pages :: "'a entity_scheme list list \<Rightarrow> (string \<rightharpoonup> nat) \<Rightarrow> (string \<rightharpoonup> nat)" where
  "index_pages params index =
     (case list_call params of
        (xs, nxt) \<Rightarrow>
          (let index' = fold index_entry xs index
           in case nxt of None \<Rightarrow> index' | Some p \<Rightarrow> index_pages p index'))"
  by pat_completeness auto
termination
  apply (relation "measure (\<lambda>(params, index). length params)")
   apply simp
  subgoal for params index xs nxt by (cases params rule: list_call.cases) auto
  done

text \<open>The source-side loop: each page's records are handed to the callback in turn.\<close>

function forEachPage :: "'a list list \<Rightarrow> ('a \<Rightarrow> unit run) \<Rightarrow> unit run" where
  "forEachPage params callback tr =
     (case list_call params of
        (xs, nxt) \<Rightarrow>
          (case asyncForEach xs callback tr of
             (Inl e, tr') \<Rightarrow> (Inl e, tr')
           | (Inr u, tr') \<Rightarrow>
               (case nxt of None \<Rightarrow> (Inr (), tr') | Some p \<Rightarrow> forEachPage p callback tr')))"
  by pat_completeness auto
termination
  apply (relation "measure (\<lambda>(params, callback, tr). length params)")
   apply simp
  subgoal for params callback tr xs nxt by (cases params rule: list_call.cases) auto
  done

section \<open>Entity transforms\<close>

text \<open>\<^verbatim>\<open>_getMetafields(resource, id)\<close>: the listing is scoped to the owner when both
  arguments are truthy, and is the shop's own listing otherwise.\<close>

definition u_getMetafields :: "migrator \<Rightarrow> string \<Rightarrow> nat \<Rightarrow> metafield list" where
  "u_getMetafields this resource i =
     walk (metafield_list (source this)
       (if resource \<noteq> [] \<and> i \<noteq> 0 then Some (resource, i) else None))"

text \<open>The block every REST transform ends with: each metafield loses its id, is bound to
  the new owner and is created, one after the other.\<close>

definition rehome_metafields :: "migrator \<Rightarrow> string \<Rightarrow> nat \<Rightarrow> metafield list \<Rightarrow> unit run" where
  "rehome_metafields this resource newId mfs =
     asyncForEach mfs (\<lambda>metafield.
       and_then
         (create this (MetafieldCreate
            (metafield\<lparr>mf_id := None, owner_resource := Some resource, owner_id := Some newId\<rparr>)))
         (\<lambda>r. ret ()))"

definition u_migratePage :: "migrator \<Rightarrow> entity \<Rightarrow> unit run" where
  "u_migratePage this page =
     (let mfs = u_getMetafields this ''page'' (ident page)
      in and_then (create this (PageCreate page))
           (\<lambda>newPage. rehome_metafields this ''page'' (new_id newPage) mfs))"

definition u_migrateBlog :: "migrator \<Rightarrow> entity \<Rightarrow> unit run" where
  "u_migrateBlog this blog =
     (let mfs = u_getMetafields this ''blog'' (ident blog)
      in and_then (create this (BlogCreate blog))
           (\<lambda>newBlog. rehome_metafields this ''blog'' (new_id newBlog) mfs))"

definition u_migrateSmartCollection :: "migrator \<Rightarrow> collection \<Rightarrow> unit run" where
  "u_migrateSmartCollection this collection =
     (let mfs = u_getMetafields this ''smart_collection'' (ident collection);
          collection1 = collection\<lparr>publications := JUndefined\<rparr>
      in and_then (create this (SmartCollectionCreate collection1))
           (\<lambda>newCollection.
              rehome_metafields this ''smart_collection'' (new_id newCollection) mfs))"

text \<open>\<^verbatim>\<open>products.map(p => productMap[p.id] || null).filter(p => p)\<close>.\<close>

definition mapped_products :: "(nat \<rightharpoonup> nat) \<Rightarrow> product list \<Rightarrow> nat list" where
  "mapped_products productMap products =
     List.map_filter
       (\<lambda>p. if truthy_id (productMap (ident p)) then productMap (ident p) else None) products"

definition u_migrateCustomCollection ::
    "migrator \<Rightarrow> collection \<Rightarrow> (nat \<rightharpoonup> nat) \<Rightarrow> unit run" where
  "u_migrateCustomCollection this collection productMap =
     (let mfs = u_getMetafields this ''custom_collection'' (ident collection);
          products = walk (collection_products (source this) (ident collection));
          collection1 = collection\<lparr>publications := JUndefined\<rparr>;
          collection2 = collection1\<lparr>collects := Some (mapped_products productMap products)\<rparr>
      in and_then (create this (CustomCollectionCreate collection2))
           (\<lambda>newCollection.
              rehome_metafields this ''custom_collection'' (new_id newCollection) mfs))"

subsection \<open>Product\<close>

text \<open>The body of \<^verbatim>\<open>(product.variants || []).forEach((variant, i) => ...)\<close>.\<close>

definition reset_variant :: "(string \<Rightarrow> rat option) \<Rightarrow> variant \<Rightarrow> variant" where
  "reset_variant strnum variant =
     (let variant1 =
            (if truthy (compare_at_price variant) \<and>
                js_le (toNumber strnum (compare_at_price variant))
                      (toNumber strnum (price variant))
             then variant\<lparr>compare_at_price := JUndefined\<rparr>
             else variant);
          variant2 = variant1\<lparr>fulfillment_service := JUndefined\<rparr>;
          variant3 = variant2\<lparr>inventory_management := JStr ''shopify''\<rparr>
      in variant3\<lparr>image_id := JUndefined\<rparr>)"

text \<open>\<^verbatim>\<open>v && v.value && v.value.indexOf && v.value.indexOf('gid://shopify/') === -1\<close>:
  among the values modelled only a string has an \<^verbatim>\<open>indexOf\<close>.\<close>

definition portable_value :: "metafield \<Rightarrow> bool" where
  "portable_value v =
     (truthy (mf_value v) \<and>
      (case mf_value v of JStr s \<Rightarrow> indexOf s ''gid://shopify/'' = - 1 | _ \<Rightarrow> False))"

text \<open>\<^verbatim>\<open>m.namespace.indexOf('app--') !== 0\<close>.\<close>

definition not_app :: "metafield \<Rightarrow> bool" where
  "not_app m = (indexOf (namespace m) ''app--'' \<noteq> 0)"

text \<open>The record handed to \<^verbatim>\<open>destination.product.create\<close>: the statements of
  \<^verbatim>\<open>_migrateProduct\<close> up to that call, in their order.\<close>

definition product_payload :: "migrator \<Rightarrow> product \<Rightarrow> product" where
  "product_payload this product =
     (let mfs = filter not_app (u_getMetafields this ''product'' (ident product));
          product1 = product\<lparr>metafields := Some (filter not_app (filter portable_value mfs))\<rparr>;
          product2 = product1\<lparr>images := None\<rparr>;
          product3 = product2\<lparr>variants :=
                       map_option (map (reset_variant (stringToNumber this))) (variants product2)\<rparr>
      in case metafields product3 of
           None \<Rightarrow> product3
         | Some ms \<Rightarrow> product3\<lparr>metafields := Some (filter not_app ms)\<rparr>)"

text \<open>Re-homing of images: a source variant id becomes the id of the new variant with the
  same title; a lookup that finds nothing makes the property access throw.\<close>

definition remap_variant_id :: "variant list option \<Rightarrow> variant list \<Rightarrow> nat \<Rightarrow> exn + nat" where
  "remap_variant_id pvariants nvariants oldId =
     (case pvariants of
        None \<Rightarrow> Inl TypeError
      | Some vs \<Rightarrow>
          (case find (\<lambda>v. v_id v = oldId) vs of
             None \<Rightarrow> Inl TypeError
           | Some oldVariant \<Rightarrow>
               (case find (\<lambda>v. v_title v = v_title oldVariant) nvariants of
                  None \<Rightarrow> Inl TypeError
                | Some newVariant \<Rightarrow> Inr (v_id newVariant))))"

fun map_throwing :: "('a \<Rightarrow> exn + 'b) \<Rightarrow> 'a list \<Rightarrow> exn + 'b list" where
  "map_throwing f [] = Inr []"
| "map_throwing f (x # xs) =
     (case f x of
        Inl e \<Rightarrow> Inl e
      | Inr y \<Rightarrow> (case map_throwing f xs of Inl e \<Rightarrow> Inl e | Inr ys \<Rightarrow> Inr (y # ys)))"

definition remap_image :: "created \<Rightarrow> product \<Rightarrow> image \<Rightarrow> exn + image" where
  "remap_image newProduct product img =
     (case map_throwing (remap_variant_id (variants product) (new_variants newProduct))
             (variant_ids img) of
        Inl e \<Rightarrow> Inl e
      | Inr ids \<Rightarrow> Inr (img\<lparr>img_product_id := Some (new_id newProduct), variant_ids := ids\<rparr>))"

definition u_migrateProduct :: "migrator \<Rightarrow> product \<Rightarrow> unit run" where
  "u_migrateProduct this product =
     (let imgs = (case images product of None \<Rightarrow> [] | Some is \<Rightarrow> is);
          product1 = product_payload this product
      in and_then (create this (ProductCreate product1))
           (\<lambda>newProduct.
              if imgs \<noteq> [] then
                (case map_throwing (remap_image newProduct product1) imgs of
                   Inl e \<Rightarrow> throw e
                 | Inr newImages \<Rightarrow>
                     asyncForEach newImages (\<lambda>img.
                       try_catch
                         (and_then
                            (create this (ProductImageCreate (new_id newProduct) img))
                            (\<lambda>r. ret ()))
                         (\<lambda>e. and_then
                                 (create this (ProductImageCreate (new_id newProduct) img))
                                 (\<lambda>r. ret ()))))
              else ret ()))"

subsection \<open>Article\<close>

text \<open>The record handed to \<^verbatim>\<open>destination.article.create\<close>: the five statements of
  \<^verbatim>\<open>_migrateArticle\<close> before that call, in their order.\<close>

definition article_payload :: "nat \<Rightarrow> article \<Rightarrow> article" where
  "article_payload blogId article =
     (let a1 = article\<lparr>user_id := JUndefined\<rparr>;
          a2 = a1\<lparr>created_at := JUndefined\<rparr>;
          a3 = a2\<lparr>deleted_at := JUndefined\<rparr>;
          a4 = a3\<lparr>published_at := created_at a3\<rparr>
      in a4\<lparr>blog_id := Some blogId\<rparr>)"

definition u_migrateArticle :: "migrator \<Rightarrow> nat \<Rightarrow> article \<Rightarrow> unit run" where
  "u_migrateArticle this blogId article =
     (let mfs = u_getMetafields this ''article'' (ident article)
      in and_then (create this (ArticleCreate blogId (article_payload blogId article)))
           (\<lambda>newArticle. rehome_metafields this ''article'' (new_id newArticle) mfs))"

subsection \<open>Files and menus (GraphQL mutations)\<close>

definition fileUrl_of :: "file_node \<Rightarrow> string option" where
  "fileUrl_of file =
     (if typename file = Some ''GenericFile'' then url file
      else if typename file = Some ''MediaImage'' \<and> file_image file \<noteq> None
      then (case file_image file of Some originalSrc \<Rightarrow> originalSrc | None \<Rightarrow> None)
      else None)"

definition u_migrateFile :: "migrator \<Rightarrow> file_node \<Rightarrow> unit run" where
  "u_migrateFile this file =
     (case fileUrl_of file of
        None \<Rightarrow> throw (Error (''[FILE '' @ file_id file @ ''] No URL available for file''))
      | Some fileUrl \<Rightarrow>
          if fileUrl = [] then
            throw (Error (''[FILE '' @ file_id file @ ''] No URL available for file''))
          else
            and_then (graphql this (FileCreate fileUrl (alt file)))
              (\<lambda>response.
                 case response of
                   None \<Rightarrow> throw TypeError
                 | Some fileCreate \<Rightarrow>
                     (case userErrors fileCreate of
                        ue # more_errors \<Rightarrow>
                          throw (Error (''[FILE '' @ file_id file @ ''] Failed to create: ''
                                        @ message ue))
                      | [] \<Rightarrow>
                          (case result_ids fileCreate of
                             [] \<Rightarrow> throw TypeError
                           | newId # more_ids \<Rightarrow> ret ()))))"

definition u_deleteFile :: "migrator \<Rightarrow> string \<Rightarrow> unit run" where
  "u_deleteFile this fileId =
     and_then (graphql this (FileDelete fileId))
       (\<lambda>response.
          case response of
            None \<Rightarrow> throw TypeError
          | Some fileDelete \<Rightarrow>
              (case userErrors fileDelete of
                 ue # more_errors \<Rightarrow>
                   error this (''Failed to delete file '' @ fileId @ '': '' @ message ue)
               | [] \<Rightarrow> ret ()))"

definition u_migrateMenu :: "migrator \<Rightarrow> menu \<Rightarrow> unit run" where
  "u_migrateMenu this menu =
     and_then
       (graphql this
          (MenuCreate (menu_handle menu) (menu_title menu)
             (map (\<lambda>item. (item_title item, item_url item, item_type item)) (items menu))))
       (\<lambda>response.
          case response of
            None \<Rightarrow> throw TypeError
          | Some menuCreate \<Rightarrow>
              (case userErrors menuCreate of
                 ue # more_errors \<Rightarrow>
                   throw (Error (''[MENU '' @ menu_id menu @ ''] Failed to create: ''
                                 @ message ue))
               | [] \<Rightarrow>
                   (case result_ids menuCreate of
                      [] \<Rightarrow> throw TypeError
                    | newId # more_ids \<Rightarrow> ret ())))"

definition u_deleteMenu :: "migrator \<Rightarrow> string \<Rightarrow> unit run" where
  "u_deleteMenu this menuId =
     and_then (graphql this (MenuDelete menuId))
       (\<lambda>response.
          case response of
            None \<Rightarrow> throw TypeError
          | Some menuDelete \<Rightarrow>
              (case userErrors menuDelete of
                 ue # more_errors \<Rightarrow>
                   error this (''Failed to delete menu '' @ menuId @ '': '' @ message ue)
               | [] \<Rightarrow> ret ()))"

section \<open>Migration drivers\<close>

text \<open>
  Each driver fills its destination index, then hands every source record to its
  callback.  An index is a JavaScript object used as a dictionary; it is modelled by the
  keys the driver stores, so a handle is taken not to be the name of a property every
  object inherits (such as \<^verbatim>\<open>constructor\<close>).  The callback is the body of the source's
  \<^verbatim>\<open>asyncForEach(records, async (record) => { ... })\<close>: a delete when the index
  entry is truthy and \<^verbatim>\<open>deleteFirst\<close> is set, an early return when the entry is truthy,
  \<^verbatim>\<open>skipExisting\<close> is set and \<^verbatim>\<open>deleteFirst\<close> is not, and the transform otherwise.
\<close>

subsection \<open>Pages\<close>

definition migratePages_item ::
    "migrator \<Rightarrow> bool \<Rightarrow> bool \<Rightarrow> (string \<rightharpoonup> nat) \<Rightarrow> entity \<Rightarrow> unit run" where
  "migratePages_item this deleteFirst skipExisting destinationPages page =
     and_then
       (case destinationPages (handle page) of
          Some i \<Rightarrow> if i \<noteq> 0 \<and> deleteFirst then delete this (PageDelete i) else ret ()
        | None \<Rightarrow> ret ())
       (\<lambda>u. if truthy_id (destinationPages (handle page)) \<and> skipExisting \<and> \<not> deleteFirst
            then ret ()
            else u_migratePage this page)"

definition migratePages :: "migrator \<Rightarrow> bool \<Rightarrow> bool \<Rightarrow> unit run" where
  "migratePages this deleteFirst skipExisting =
     (let destinationPages = index_pages (page_list (destination this)) Map.empty
      in forEachPage (page_list (source this))
           (migratePages_item this deleteFirst skipExisting destinationPages))"

subsection \<open>Products\<close>

definition migrateProducts_item ::
    "migrator \<Rightarrow> bool \<Rightarrow> bool \<Rightarrow> (string \<rightharpoonup> nat) \<Rightarrow> product \<Rightarrow> unit run" where
  "migrateProducts_item this deleteFirst skipExisting destinationProducts product =
     and_then
       (case destinationProducts (handle product) of
          Some i \<Rightarrow> if i \<noteq> 0 \<and> deleteFirst then delete this (ProductDelete i) else ret ()
        | None \<Rightarrow> ret ())
       (\<lambda>u. if truthy_id (destinationProducts (handle product)) \<and> skipExisting \<and> \<not> deleteFirst
            then ret ()
            else try_catch (u_migrateProduct this product)
                   (\<lambda>e. error this
                          (''[PRODUCT] '' @ handle product @ '' FAILED TO BE CREATED PROPERLY.'')))"

definition migrateProducts :: "migrator \<Rightarrow> bool \<Rightarrow> bool \<Rightarrow> unit run" where
  "migrateProducts this deleteFirst skipExisting =
     (let destinationProducts = index_pages (product_list (destination this)) Map.empty
      in forEachPage (product_list (source this))
           (migrateProducts_item this deleteFirst skipExisting destinationProducts))"

subsection \<open>Shop metafields\<close>

text \<open>Here the destination listing is kept as a list and searched by key and namespace;
  the match is an object, hence truthy.\<close>

definition migrateMetafields_item ::
    "migrator \<Rightarrow> bool \<Rightarrow> bool \<Rightarrow> metafield list \<Rightarrow> metafield \<Rightarrow> unit run" where
  "migrateMetafields_item this deleteFirst skipExisting destinationMetafields metafield =
     (let destinationMetafield =
            find (\<lambda>f. key f = key metafield \<and> namespace f = namespace metafield)
              destinationMetafields
      in and_then
           (case destinationMetafield of
              Some d \<Rightarrow> if deleteFirst then delete this (MetafieldDelete (mf_id d)) else ret ()
            | None \<Rightarrow> ret ())
           (\<lambda>u. if destinationMetafield \<noteq> None \<and> skipExisting \<and> \<not> deleteFirst
                then ret ()
                else try_catch
                       (and_then
                          (create this (MetafieldCreate
                             (metafield\<lparr>owner_id := None, owner_resource := None\<rparr>)))
                          (\<lambda>r. ret ()))
                       (\<lambda>e. error this
                              (''[METAFIELD] '' @ namespace metafield @ ''.'' @ key metafield
                               @ '' FAILED TO BE CREATED PROPERLY.''))))"

definition migrateMetafields :: "migrator \<Rightarrow> bool \<Rightarrow> bool \<Rightarrow> unit run" where
  "migrateMetafields this deleteFirst skipExisting =
     (let sourceMetafields = walk (metafield_list (source this) None);
          destinationMetafields = walk (metafield_list (destination this) None)
      in asyncForEach sourceMetafields
           (migrateMetafields_item this deleteFirst skipExisting destinationMetafields))"

subsection \<open>Smart collections\<close>

definition migrateSmartCollections_item ::
    "migrator \<Rightarrow> bool \<Rightarrow> bool \<Rightarrow> (string \<rightharpoonup> nat) \<Rightarrow> collection \<Rightarrow> unit run" where
  "migrateSmartCollections_item this deleteFirst skipExisting destinationCollections collection =
     and_then
       (case destinationCollections (handle collection) of
          Some i \<Rightarrow>
            if i \<noteq> 0 \<and> deleteFirst then delete this (SmartCollectionDelete i) else ret ()
        | None \<Rightarrow> ret ())
       (\<lambda>u. if truthy_id (destinationCollections (handle collection)) \<and> skipExisting
               \<and> \<not> deleteFirst
            then ret ()
            else try_catch (u_migrateSmartCollection this collection)
                   (\<lambda>e. error this
                          (''[COLLECTION] '' @ handle collection
                           @ '' FAILED TO BE CREATED PROPERLY.'')))"

definition migrateSmartCollections :: "migrator \<Rightarrow> bool \<Rightarrow> bool \<Rightarrow> unit run" where
  "migrateSmartCollections this deleteFirst skipExisting =
     (let destinationCollections =
            index_pages (smartCollection_list (destination this)) Map.empty
      in forEachPage (smartCollection_list (source this))
           (migrateSmartCollections_item this deleteFirst skipExisting destinationCollections))"

subsection \<open>Custom collections\<close>

text \<open>\<^verbatim>\<open>destinationProducts.forEach(p => { const s = sourceProducts.find(s => s.handle
  === p.handle); if (s) productMap[s.id] = p.id })\<close>.\<close>

definition build_productMap :: "product list \<Rightarrow> product list \<Rightarrow> (nat \<rightharpoonup> nat)" where
  "build_productMap sourceProducts destinationProducts =
     fold (\<lambda>p m. case find (\<lambda>s. handle s = handle p) sourceProducts of
                    Some sourceProduct \<Rightarrow> m(ident sourceProduct \<mapsto> ident p)
                  | None \<Rightarrow> m)
       destinationProducts Map.empty"

text \<open>One index, filled from the destination's smart collections and then from its
  custom collections.\<close>

definition customCollections_index :: "migrator \<Rightarrow> (string \<rightharpoonup> nat)" where
  "customCollections_index this =
     index_pages (customCollection_list (destination this))
       (index_pages (smartCollection_list (destination this)) Map.empty)"

definition migrateCustomCollections_item ::
    "migrator \<Rightarrow> bool \<Rightarrow> bool \<Rightarrow> (string \<rightharpoonup> nat) \<Rightarrow> (nat \<rightharpoonup> nat) \<Rightarrow> collection
      \<Rightarrow> unit run" where
  "migrateCustomCollections_item this deleteFirst skipExisting destinationCollections productMap
       collection =
     and_then
       (case destinationCollections (handle collection) of
          Some i \<Rightarrow>
            if i \<noteq> 0 \<and> deleteFirst then delete this (CustomCollectionDelete i) else ret ()
        | None \<Rightarrow> ret ())
       (\<lambda>u. if truthy_id (destinationCollections (handle collection)) \<and> skipExisting
               \<and> \<not> deleteFirst
            then ret ()
            else try_catch (u_migrateCustomCollection this collection productMap)
                   (\<lambda>e. error this
                          (''[COLLECTION] '' @ handle collection
                           @ '' FAILED TO BE CREATED PROPERLY.'')))"

definition migrateCustomCollections :: "migrator \<Rightarrow> bool \<Rightarrow> bool \<Rightarrow> unit run" where
  "migrateCustomCollections this deleteFirst skipExisting =
     (let sourceProducts = walk (product_list (source this));
          destinationProducts = walk (product_list (destination this));
          productMap = build_productMap sourceProducts destinationProducts;
          destinationCollections = customCollections_index this
      in forEachPage (customCollection_list (source this))
           (migrateCustomCollections_item this deleteFirst skipExisting destinationCollections
              productMap))"

subsection \<open>Blogs\<close>

definition migrateBlogs_item ::
    "migrator \<Rightarrow> bool \<Rightarrow> bool \<Rightarrow> (string \<rightharpoonup> nat) \<Rightarrow> entity \<Rightarrow> unit run" where
  "migrateBlogs_item this deleteFirst skipExisting destinationBlogs blog =
     and_then
       (case destinationBlogs (handle blog) of
          Some i \<Rightarrow> if i \<noteq> 0 \<and> deleteFirst then delete this (BlogDelete i) else ret ()
        | None \<Rightarrow> ret ())
       (\<lambda>u. if truthy_id (destinationBlogs (handle blog)) \<and> skipExisting \<and> \<not> deleteFirst
            then ret ()
            else u_migrateBlog this blog)"

definition migrateBlogs :: "migrator \<Rightarrow> bool \<Rightarrow> bool \<Rightarrow> unit run" where
  "migrateBlogs this deleteFirst skipExisting =
     (let destinationBlogs = index_pages (blog_list (destination this)) Map.empty
      in forEachPage (blog_list (source this))
           (migrateBlogs_item this deleteFirst skipExisting destinationBlogs))"

subsection \<open>Articles\<close>

definition migrateArticles_item ::
    "migrator \<Rightarrow> bool \<Rightarrow> bool \<Rightarrow> nat \<Rightarrow> (string \<rightharpoonup> nat) \<Rightarrow> article \<Rightarrow> unit run" where
  "migrateArticles_item this deleteFirst skipExisting destinationBlogId destinationArticles
       article =
     and_then
       (case destinationArticles (handle article) of
          Some i \<Rightarrow>
            if i \<noteq> 0 \<and> deleteFirst then delete this (ArticleDelete destinationBlogId i)
            else ret ()
        | None \<Rightarrow> ret ())
       (\<lambda>u. if truthy_id (destinationArticles (handle article)) \<and> skipExisting
               \<and> \<not> deleteFirst
            then ret ()
            else u_migrateArticle this destinationBlogId article)"

text \<open>\<^verbatim>\<open>sourceBlogs.filter(s => destinationBlogs.find(d => d.handle === s.handle))\<close>,
  over the single page each \<^verbatim>\<open>blog.list({limit: 250})\<close> call returns.\<close>

definition matchingBlogs :: "migrator \<Rightarrow> entity list" where
  "matchingBlogs this =
     (let sourceBlogs = fst (list_call (blog_list (source this)));
          destinationBlogs = fst (list_call (blog_list (destination this)))
      in filter (\<lambda>sourceBlog.
                   find (\<lambda>destinationBlog. handle destinationBlog = handle sourceBlog)
                     destinationBlogs \<noteq> None)
           sourceBlogs)"

definition migrateArticles_blog :: "migrator \<Rightarrow> bool \<Rightarrow> bool \<Rightarrow> entity \<Rightarrow> unit run" where
  "migrateArticles_blog this deleteFirst skipExisting blog =
     (case find (\<lambda>b. handle b = handle blog) (fst (list_call (blog_list (destination this)))) of
        None \<Rightarrow> throw TypeError
      | Some destinationBlog \<Rightarrow>
          (let destinationArticles =
                 index_pages (article_list (destination this) (ident destinationBlog)) Map.empty
           in forEachPage (article_list (source this) (ident blog))
                (migrateArticles_item this deleteFirst skipExisting (ident destinationBlog)
                   destinationArticles)))"

text \<open>The outer \<^verbatim>\<open>asyncForEach\<close> is not awaited: the driver returns at once and never
  sees a throw of the per-blog work.  The events are those the work issues when it is
  left to run alone; how they interleave with a later driver is not modelled.\<close>

definition migrateArticles :: "migrator \<Rightarrow> bool \<Rightarrow> bool \<Rightarrow> unit run" where
  "migrateArticles this deleteFirst skipExisting tr =
     (Inr (),
      snd (asyncForEach (matchingBlogs this)
             (migrateArticles_blog this deleteFirst skipExisting) tr))"

subsection \<open>Files\<close>

text \<open>The destination walk: while \<^verbatim>\<open>hasNextPage\<close>, ask, check the envelope, and file
  every node with a truthy URL under that URL.  When the store has no further answer the
  walk has reached an empty last page.\<close>

fun destinationFiles_walk ::
    "migrator \<Rightarrow> files_response list \<Rightarrow> (string \<rightharpoonup> file_node) \<Rightarrow> (string \<rightharpoonup> file_node) run" where
  "destinationFiles_walk this [] destinationFiles = ret destinationFiles"
| "destinationFiles_walk this (response # later) destinationFiles =
     (case gql_errors response of
        Some errs \<Rightarrow>
          and_then (error this ''GraphQL Error:'')
            (\<lambda>u. throw (Error (''GraphQL errors: '' @ errs)))
      | None \<Rightarrow>
          (case gql_files response of
             None \<Rightarrow>
               and_then (error this ''Invalid GraphQL response:'')
                 (\<lambda>u. throw (Error ''Invalid GraphQL response structure''))
           | Some connection \<Rightarrow>
               (let destinationFiles1 =
                      fold (\<lambda>file m. if truthy_str (fileUrl_of file)
                                      then (case fileUrl_of file of
                                              Some fileUrl \<Rightarrow> m(fileUrl \<mapsto> file)
                                            | None \<Rightarrow> m)
                                      else m)
                        (edges connection) destinationFiles
                in if hasNextPage connection
                   then destinationFiles_walk this later destinationFiles1
                   else ret destinationFiles1)))"

definition migrateFiles_item ::
    "migrator \<Rightarrow> bool \<Rightarrow> bool \<Rightarrow> (string \<rightharpoonup> file_node) \<Rightarrow> file_node \<Rightarrow> unit run" where
  "migrateFiles_item this deleteFirst skipExisting destinationFiles file =
     (case fileUrl_of file of
        None \<Rightarrow> ret ()
      | Some fileUrl \<Rightarrow>
          if fileUrl = [] then ret ()
          else
            and_then
              (case destinationFiles fileUrl of
                 Some d \<Rightarrow> if deleteFirst then u_deleteFile this (file_id d) else ret ()
               | None \<Rightarrow> ret ())
              (\<lambda>u. if destinationFiles fileUrl \<noteq> None \<and> skipExisting \<and> \<not> deleteFirst
                   then ret ()
                   else u_migrateFile this file))"

fun sourceFiles_walk ::
    "migrator \<Rightarrow> bool \<Rightarrow> bool \<Rightarrow> (string \<rightharpoonup> file_node) \<Rightarrow> files_response list \<Rightarrow> unit run" where
  "sourceFiles_walk this deleteFirst skipExisting destinationFiles [] = ret ()"
| "sourceFiles_walk this deleteFirst skipExisting destinationFiles (response # later) =
     (case gql_errors response of
        Some errs \<Rightarrow>
          and_then (error this ''GraphQL Error:'')
            (\<lambda>u. throw (Error (''GraphQL errors: '' @ errs)))
      | None \<Rightarrow>
          (case gql_files response of
             None \<Rightarrow>
               and_then (error this ''Invalid GraphQL response:'')
                 (\<lambda>u. throw (Error ''Invalid GraphQL response structure''))
           | Some connection \<Rightarrow>
               and_then
                 (asyncForEach (edges connection)
                    (migrateFiles_item this deleteFirst skipExisting destinationFiles))
                 (\<lambda>u. if hasNextPage connection
                      then sourceFiles_walk this deleteFirst skipExisting destinationFiles later
                      else ret ())))"

definition migrateFiles :: "migrator \<Rightarrow> bool \<Rightarrow> bool \<Rightarrow> unit run" where
  "migrateFiles this deleteFirst skipExisting =
     and_then (destinationFiles_walk this (files_query (destination this)) Map.empty)
       (\<lambda>destinationFiles.
          sourceFiles_walk this deleteFirst skipExisting destinationFiles
            (files_query (source this)))"

subsection \<open>Menus\<close>

definition migrateMenus_item ::
    "migrator \<Rightarrow> bool \<Rightarrow> bool \<Rightarrow> (string \<rightharpoonup> menu) \<Rightarrow> menu \<Rightarrow> unit run" where
  "migrateMenus_item this deleteFirst skipExisting destinationMenus menu =
     and_then
       (case destinationMenus (menu_handle menu) of
          Some d \<Rightarrow> if deleteFirst then u_deleteMenu this (menu_id d) else ret ()
        | None \<Rightarrow> ret ())
       (\<lambda>u. if destinationMenus (menu_handle menu) \<noteq> None \<and> skipExisting \<and> \<not> deleteFirst
            then ret ()
            else u_migrateMenu this menu)"

definition migrateMenus :: "migrator \<Rightarrow> bool \<Rightarrow> bool \<Rightarrow> unit run" where
  "migrateMenus this deleteFirst skipExisting =
     (let destinationMenus =
            (case menus_query (destination this) of
               Some nodes \<Rightarrow> fold (\<lambda>node m. m(menu_handle node \<mapsto> node)) nodes Map.empty
             | None \<Rightarrow> Map.empty)
      in case menus_query (source this) of
           Some nodes \<Rightarrow>
             asyncForEach nodes (migrateMenus_item this deleteFirst skipExisting destinationMenus)
         | None \<Rightarrow> ret ())"

section \<open>Observations on runs\<close>



text \<open>A computation never rewrites the events before it, and all it adds satisfies \<open>P\<close>.\<close>

definition emits :: "(event \<Rightarrow> bool) \<Rightarrow> 'a run \<Rightarrow> bool" where
  "emits P m = (\<forall>tr. \<exists>added. snd (m tr) = tr @ added \<and> list_all P added)"

section \<open>Example inputs\<close>

text \<open>A store with nothing in it, and a migrator whose destination accepts every call:
  a create answers with a fresh id, a mutation with a payload free of user errors.  Its
  string-to-number conversion reads no string as a number; the examples that compare
  prices use numbers.\<close>

definition empty_store :: store where
  "empty_store =
     \<lparr>page_list = [], blog_list = [], article_list = (\<lambda>b. []), product_list = [],
      smartCollection_list = [], customCollection_list = [],
      collection_products = (\<lambda>c. []), metafield_list = (\<lambda>owner. []),
      files_query = [], menus_query = None\<rparr>"

definition accepting :: "store \<Rightarrow> store \<Rightarrow> migrator" where
  "accepting src dst =
     \<lparr>verbosity = 4, source = src, destination = dst,
      dest_create = (\<lambda>tr c. Inr \<lparr>new_id = 1000 + length tr, new_variants = []\<rparr>),
      dest_delete = (\<lambda>tr c. Inr ()),
      dest_graphql = (\<lambda>tr c. Inr (Some \<lparr>result_ids = [''gid://shopify/New/1''],
                                            userErrors = []\<rparr>)),
      stringToNumber = (\<lambda>s. None)\<rparr>"

text \<open>The product of the spec's example: variants A (price 10, compare-at 8) and
  B (price 10, compare-at 12); A is fulfilled by a third party and points at an image.\<close>

definition variantA :: variant where
  "variantA =
     \<lparr>v_id = 1, v_title = ''A'', price = JNum 10, compare_at_price = JNum 8,
      fulfillment_service = JStr ''amazon_marketplace_web'', inventory_management = JNull,
      image_id = JNum 77\<rparr>"

definition variantB :: variant where
  "variantB =
     \<lparr>v_id = 2, v_title = ''B'', price = JNum 10, compare_at_price = JNum 12,
      fulfillment_service = JUndefined, inventory_management = JUndefined,
      image_id = JUndefined\<rparr>"

definition shirt :: product where
  "shirt =
     \<lparr>ident = 1, handle = ''shirt'', other_fields = [], metafields = None, images = None,
      variants = Some [variantA, variantB]\<rparr>"

text \<open>Three metafields of that product, none in an app namespace and none holding a
  global id: a number, an empty string and a plain string.\<close>

definition mf_number :: metafield where
  "mf_number =
     \<lparr>mf_id = Some 21, namespace = ''custom'', key = ''weight'', mf_value = JNum 5,
      owner_resource = Some ''product'', owner_id = Some 1\<rparr>"

definition mf_blank :: metafield where
  "mf_blank =
     \<lparr>mf_id = Some 22, namespace = ''custom'', key = ''note'', mf_value = JStr [],
      owner_resource = Some ''product'', owner_id = Some 1\<rparr>"

definition mf_colour :: metafield where
  "mf_colour =
     \<lparr>mf_id = Some 23, namespace = ''custom'', key = ''colour'', mf_value = JStr ''red'',
      owner_resource = Some ''product'', owner_id = Some 1\<rparr>"

definition shirt_store :: store where
  "shirt_store =
     empty_store\<lparr>product_list := [[shirt]],
                  metafield_list := (\<lambda>owner. if owner = Some (''product'', 1)
                                              then [[mf_number, mf_blank], [mf_colour]]
                                              else [])\<rparr>"

text \<open>An article with a creation date.\<close>

definition post :: article where
  "post =
     \<lparr>ident = 5, handle = ''hello'', other_fields = [], user_id = JNum 9,
      created_at = JStr ''2020-01-01T00:00:00Z'', deleted_at = JNull,
      published_at = JStr ''2020-01-02T00:00:00Z'', blog_id = Some 3\<rparr>"
text \<open>A page, a blog and a collection, and a source store in which every owner (and the
  shop itself) has one metafield in an app-reserved namespace.\<close>

definition about :: entity where
  "about = \<lparr>ident = 1, handle = ''about'', other_fields = []\<rparr>"

definition news :: entity where
  "news = \<lparr>ident = 7, handle = ''news'', other_fields = []\<rparr>"

definition sale :: collection where
  "sale =
     \<lparr>ident = 4, handle = ''sale'', other_fields = [], publications = JUndefined,
      collects = None\<rparr>"

definition app_metafield :: metafield where
  "app_metafield =
     \<lparr>mf_id = Some 31, namespace = ''app--12345--reviews'', key = ''rating'',
      mf_value = JStr ''5'', owner_resource = Some ''shop'', owner_id = Some 1\<rparr>"

definition app_store :: store where
  "app_store =
     empty_store
       \<lparr>metafield_list :=
          (\<lambda>owner. case owner of
                     None \<Rightarrow> [[app_metafield]]
                   | Some (resource, i) \<Rightarrow>
                       [[app_metafield\<lparr>owner_resource := Some resource,
                                        owner_id := Some i\<rparr>]])\<rparr>"

text \<open>The metafields a run asked the destination to create, in order.\<close>

fun metafield_creates :: "event list \<Rightarrow> metafield list" where
  "metafield_creates [] = []"
| "metafield_creates (Call (MetafieldCreate m) # es) = m # metafield_creates es"
| "metafield_creates (e # es) = metafield_creates es"

text \<open>A destination with two pages of blogs, the blog \<^verbatim>\<open>news\<close> on the second, and a
  source whose only blog is \<^verbatim>\<open>news\<close>, holding one article.\<close>

definition blog_store :: store where
  "blog_store =
     empty_store\<lparr>blog_list := [[news]], article_list := (\<lambda>b. if b = 7 then [[post]] else [])\<rparr>"

definition two_page_destination :: store where
  "two_page_destination =
     empty_store\<lparr>blog_list := [[\<lparr>ident = 1, handle = ''journal'', other_fields = []\<rparr>],
                                [\<lparr>ident = 2, handle = ''news'', other_fields = []\<rparr>]]\<rparr>"

definition one_page_destination :: store where
  "one_page_destination =
     empty_store\<lparr>blog_list := [[\<lparr>ident = 1, handle = ''journal'', other_fields = []\<rparr>,
                                 \<lparr>ident = 2, handle = ''news'', other_fields = []\<rparr>]]\<rparr>"

text \<open>A destination that answers every mutation with one user error, and a file and
  a menu to send to it.\<close>

definition taken :: userError where
  "taken = \<lparr>ue_field = JNull, message = ''Handle has already been taken''\<rparr>"

definition complaining :: migrator where
  "complaining =
     (accepting empty_store empty_store)
       \<lparr>dest_graphql := (\<lambda>tr c. Inr (Some \<lparr>result_ids = [], userErrors = [taken]\<rparr>))\<rparr>"

definition logo :: file_node where
  "logo =
     \<lparr>file_id = ''gid://shopify/GenericFile/1'', alt = JStr ''Logo'',
      typename = Some ''GenericFile'', url = Some ''https://cdn.example/logo.pdf'',
      file_image = None\<rparr>"

definition main_menu :: menu where
  "main_menu =
     \<lparr>menu_id = ''gid://shopify/Menu/1'', menu_handle = ''main-menu'',
      menu_title = JStr ''Main menu'', items = []\<rparr>"



section \<open>Loops, payloads and events\<close>

subsection \<open>The paging loops read every page\<close>

declare walk.simps [simp del] index_pages.simps [simp del] forEachPage.simps [simp del]

lemma list_call_Cons: "list_call (p # ps) = (p, if ps = [] then None else Some ps)"
  by (cases ps) simp_all

lemma walk_concat: "walk listing = concat listing"
proof (induction listing)
  case Nil
  show ?case by (simp add: walk.simps [of "[]"])
next
  case (Cons p ps)
  then show ?case by (simp add: walk.simps [of "p # ps"] list_call_Cons)
qed

lemma index_pages_concat:
  "index_pages listing index = fold index_entry (concat listing) index"
proof (induction listing arbitrary: index)
  case Nil
  show ?case by (simp add: index_pages.simps [of "[]"])
next
  case (Cons p ps)
  then show ?case by (simp add: index_pages.simps [of "p # ps"] list_call_Cons)
qed

lemma asyncForEach_append:
  "asyncForEach (xs @ ys) callback tr =
     (case asyncForEach xs callback tr of
        (Inl e, tr') \<Rightarrow> (Inl e, tr')
      | (Inr u, tr') \<Rightarrow> asyncForEach ys callback tr')"
  by (induction xs arbitrary: tr) (auto split: prod.splits sum.splits)

lemma forEachPage_concat:
  "forEachPage listing callback tr = asyncForEach (concat listing) callback tr"
proof (induction listing arbitrary: tr)
  case Nil
  show ?case by (simp add: forEachPage.simps [of "[]"])
next
  case (Cons p ps)
  then show ?case
    by (simp add: forEachPage.simps [of "p # ps"] list_call_Cons asyncForEach_append
             split: prod.splits sum.splits)
qed

lemma indexOf_at_range: "indexOf_at i s t = - 1 \<or> int i \<le> indexOf_at i s t"
  by (induction s arbitrary: i) (auto, force)

lemma indexOf_at_prefix: "(indexOf_at i s t = int i) = prefix t s"
proof (cases s)
  case Nil
  then show ?thesis by auto
next
  case (Cons c cs)
  have "indexOf_at (Suc i) cs t \<noteq> int i"
    using indexOf_at_range [of "Suc i" cs t] by auto
  with Cons show ?thesis by auto
qed

lemma indexOf_zero_prefix: "(indexOf s t = 0) = prefix t s"
  using indexOf_at_prefix [of 0 s t] by (simp add: indexOf_def)

lemma not_app_prefix: "not_app m = (\<not> prefix ''app--'' (namespace m))"
  by (simp add: not_app_def indexOf_zero_prefix)

lemma metafields_product_payload:
  "metafields (product_payload this product) =
     Some (filter (\<lambda>m. not_app m \<and> portable_value m)
             (u_getMetafields this ''product'' (ident product)))"
  by (simp add: product_payload_def Let_def cong: conj_cong)

lemma variants_product_payload:
  "variants (product_payload this product) =
     map_option (map (reset_variant (stringToNumber this))) (variants product)"
  by (simp add: product_payload_def Let_def)

subsection \<open>Events of the basic calls\<close>

lemma and_then_create:
  "and_then (create this c) f tr =
     (case dest_create this tr c of
        Inl e \<Rightarrow> (Inl (Rejected e), tr @ [Call c])
      | Inr r \<Rightarrow> f r (tr @ [Call c]))"
  by (simp add: and_then_def create_def split: sum.splits)


lemma and_then_graphql:
  "and_then (graphql this c) f tr =
     (case dest_graphql this tr c of
        Inl e \<Rightarrow> (Inl (Rejected e), tr @ [Call c])
      | Inr r \<Rightarrow> f r (tr @ [Call c]))"
  by (simp add: and_then_def graphql_def split: sum.splits)

lemma and_then_ret: "and_then (ret x) f tr = f x tr"
  by (simp add: and_then_def ret_def)

lemma extends_trace_rehome:
  "\<exists>added. snd (rehome_metafields this resource newId mfs tr) = tr @ added"
proof (induction mfs arbitrary: tr)
  case Nil
  show ?case by (simp add: rehome_metafields_def)
next
  case (Cons m ms)
  show ?case
  proof (cases "dest_create this tr (MetafieldCreate (m\<lparr>mf_id := None, owner_resource := Some resource, owner_id := Some newId\<rparr>))")
    case (Inl e)
    then show ?thesis by (simp add: rehome_metafields_def and_then_create)
  next
    case (Inr r)
    obtain added where
      "snd (rehome_metafields this resource newId ms (tr @ [Call (MetafieldCreate (m\<lparr>mf_id := None, owner_resource := Some resource, owner_id := Some newId\<rparr>))])) = (tr @ [Call (MetafieldCreate (m\<lparr>mf_id := None, owner_resource := Some resource, owner_id := Some newId\<rparr>))]) @ added"
      using Cons.IH by blast
    with Inr show ?thesis
      by (simp add: rehome_metafields_def and_then_create ret_def)
  qed
qed

subsection \<open>What a computation adds to the events\<close>






lemma emits_delete: "P (Call c) \<Longrightarrow> emits P (delete this c)"
  by (auto simp: emits_def delete_def split: sum.splits)

lemma emits_graphql: "P (Call c) \<Longrightarrow> emits P (graphql this c)"
  by (auto simp: emits_def graphql_def split: sum.splits)
























subsection \<open>The drivers hand every source record to their callback\<close>

lemma migratePages_records:
  "migratePages this deleteFirst skipExisting =
     asyncForEach (concat (page_list (source this)))
       (migratePages_item this deleteFirst skipExisting
          (fold index_entry (concat (page_list (destination this))) Map.empty))"
  by (rule ext) (simp add: migratePages_def Let_def forEachPage_concat index_pages_concat)

lemma migrateProducts_records:
  "migrateProducts this deleteFirst skipExisting =
     asyncForEach (concat (product_list (source this)))
       (migrateProducts_item this deleteFirst skipExisting
          (fold index_entry (concat (product_list (destination this))) Map.empty))"
  by (rule ext) (simp add: migrateProducts_def Let_def forEachPage_concat index_pages_concat)

lemma migrateMetafields_records:
  "migrateMetafields this deleteFirst skipExisting =
     asyncForEach (concat (metafield_list (source this) None))
       (migrateMetafields_item this deleteFirst skipExisting
          (concat (metafield_list (destination this) None)))"
  by (simp add: migrateMetafields_def Let_def walk_concat)

lemma migrateSmartCollections_records:
  "migrateSmartCollections this deleteFirst skipExisting =
     asyncForEach (concat (smartCollection_list (source this)))
       (migrateSmartCollections_item this deleteFirst skipExisting
          (fold index_entry (concat (smartCollection_list (destination this))) Map.empty))"
  by (rule ext)
     (simp add: migrateSmartCollections_def Let_def forEachPage_concat index_pages_concat)


lemma migrateCustomCollections_records:
  "migrateCustomCollections this deleteFirst skipExisting =
     asyncForEach (concat (customCollection_list (source this)))
       (migrateCustomCollections_item this deleteFirst skipExisting
          (customCollections_index this)
          (build_productMap (concat (product_list (source this)))
             (concat (product_list (destination this)))))"
  by (rule ext)
     (simp add: migrateCustomCollections_def Let_def forEachPage_concat walk_concat)

lemma migrateBlogs_records:
  "migrateBlogs this deleteFirst skipExisting =
     asyncForEach (concat (blog_list (source this)))
       (migrateBlogs_item this deleteFirst skipExisting
          (fold index_entry (concat (blog_list (destination this))) Map.empty))"
  by (rule ext) (simp add: migrateBlogs_def Let_def forEachPage_concat index_pages_concat)

lemma migrateArticles_blog_records:
  "find (\<lambda>b. handle b = handle blog) (fst (list_call (blog_list (destination this))))
     = Some destinationBlog \<Longrightarrow>
   migrateArticles_blog this deleteFirst skipExisting blog =
     asyncForEach (concat (article_list (source this) (ident blog)))
       (migrateArticles_item this deleteFirst skipExisting (ident destinationBlog)
          (fold index_entry
             (concat (article_list (destination this) (ident destinationBlog))) Map.empty))"
  by (rule ext)
     (simp add: migrateArticles_blog_def Let_def forEachPage_concat index_pages_concat)

subsection \<open>What an index holds\<close>

lemma fold_index_entry_snoc:
  "fold index_entry (xs @ [x]) index h =
     (if handle x = h then Some (ident x) else fold index_entry xs index h)"
  by (simp add: index_entry_def)



text \<open>An index built from a listing whose ids are platform ids (none is 0) maps the
  handle of every record of the listing to such an id.\<close>

lemma fold_index_entry_holds:
  "x \<in> set xs \<Longrightarrow> \<forall>y\<in>set xs. ident y \<noteq> 0 \<Longrightarrow>
     \<exists>i. fold index_entry xs index (handle x) = Some i \<and> i \<noteq> 0"
proof (induction xs rule: rev_induct)
  case Nil
  then show ?case by simp
next
  case (snoc y ys)
  show ?case
  proof (cases "handle y = handle x")
    case True
    then have "fold index_entry (ys @ [y]) index (handle x) = Some (ident y)"
      by (simp only: fold_index_entry_snoc simp_thms if_True)
    moreover from snoc.prems(2) have "ident y \<noteq> 0" by simp
    ultimately show ?thesis by blast
  next
    case False
    with snoc.prems(1) have "x \<in> set ys" by auto
    moreover from snoc.prems(2) have "\<forall>z\<in>set ys. ident z \<noteq> 0" by simp
    ultimately have "\<exists>i. fold index_entry ys index (handle x) = Some i \<and> i \<noteq> 0"
      by (rule snoc.IH)
    with False show ?thesis by (simp only: fold_index_entry_snoc if_False)
  qed
qed

lemma index_pages_holds:
  "x \<in> set (concat listing) \<Longrightarrow> \<forall>y\<in>set (concat listing). ident y \<noteq> 0 \<Longrightarrow>
     \<exists>i. index_pages listing Map.empty (handle x) = Some i \<and> i \<noteq> 0"
  by (simp only: index_pages_concat) (rule fold_index_entry_holds)

subsection \<open>The destination index of the file driver\<close>

text \<open>The query of the destination walk does not ask for \<^verbatim>\<open>__typename\<close> (the query
  of the source walk does), so the nodes it is answered with carry none.  Over such nodes
  the walk files nothing: the index it returns is the one it started from.\<close>

lemma fileUrl_of_untyped: "typename node = None \<Longrightarrow> fileUrl_of node = None"
  by (simp add: fileUrl_of_def)

lemma fold_untyped_nodes:
  "\<forall>node\<in>set nodes. typename node = None \<Longrightarrow>
     fold (\<lambda>node m. if truthy_str (fileUrl_of node)
                     then (case fileUrl_of node of Some fileUrl \<Rightarrow> m(fileUrl \<mapsto> node)
                           | None \<Rightarrow> m)
                     else m) nodes index = index"
  by (induction nodes arbitrary: index) (simp_all add: fileUrl_of_untyped)

lemma destinationFiles_walk_untyped:
  assumes "\<forall>response\<in>set responses. \<forall>connection. gql_files response = Some connection \<longrightarrow>
             (\<forall>node\<in>set (edges connection). typename node = None)"
    and "destinationFiles_walk this responses index tr = (Inr index', tr')"
  shows "index' = index"
  using assms
proof (induction responses arbitrary: tr)
  case Nil
  then show ?case by (simp add: ret_def)
next
  case (Cons response later)
  show ?case
  proof (cases "gql_errors response")
    case (Some errs)
    with Cons.prems(2) show ?thesis
      by (simp add: and_then_def error_def throw_def)
  next
    case None
    note no_errors = None
    show ?thesis
    proof (cases "gql_files response")
      case None
      with no_errors Cons.prems(2) show ?thesis
        by (simp add: and_then_def error_def throw_def)
    next
      case (Some connection)
      have "\<forall>node\<in>set (edges connection). typename node = None"
        using Cons.prems(1) Some by simp
      then have same: "fold (\<lambda>node m. if truthy_str (fileUrl_of node)
                     then (case fileUrl_of node of Some fileUrl \<Rightarrow> m(fileUrl \<mapsto> node)
                           | None \<Rightarrow> m)
                     else m) (edges connection) index = index"
        by (rule fold_untyped_nodes)
      show ?thesis
      proof (cases "hasNextPage connection")
        case True
        with no_errors Some same Cons.prems(2)
        have "destinationFiles_walk this later index tr = (Inr index', tr')"
          by (simp add: Let_def)
        moreover have "\<forall>response\<in>set later. \<forall>connection.
            gql_files response = Some connection \<longrightarrow>
              (\<forall>node\<in>set (edges connection). typename node = None)"
          using Cons.prems(1) by simp
        ultimately show ?thesis using Cons.IH by blast
      next
        case False
        with no_errors Some same Cons.prems(2) show ?thesis
          by (simp add: Let_def ret_def)
      qed
    qed
  qed
qed

section \<open>The article payload\<close>

text \<open>
  Claim C4 says that the article creation payload has \<^verbatim>\<open>published_at\<close> equal to the
  source record's original \<^verbatim>\<open>created_at\<close>.  The code deletes \<^verbatim>\<open>created_at\<close> before it
  reads it: for every article the payload of the one \<^verbatim>\<open>article.create\<close> call, the first
  call \<^verbatim>\<open>_migrateArticle\<close> issues, has \<^verbatim>\<open>published_at\<close> undefined.
\<close>

theorem article_published_at_undefined:
  "published_at (article_payload blogId article) = JUndefined \<and>
   (\<exists>res added. u_migrateArticle this blogId article tr =
      (res, tr @ Call (ArticleCreate blogId (article_payload blogId article)) # added))"
proof
  show "published_at (article_payload blogId article) = JUndefined"
    by (simp add: article_payload_def Let_def)
next
  let ?c = "ArticleCreate blogId (article_payload blogId article)"
  show "\<exists>res added. u_migrateArticle this blogId article tr = (res, tr @ Call ?c # added)"
  proof (cases "dest_create this tr ?c")
    case (Inl e)
    then show ?thesis by (simp add: u_migrateArticle_def Let_def and_then_create)
  next
    case (Inr r)
    obtain added where
      "snd (rehome_metafields this ''article'' (new_id r)
              (u_getMetafields this ''article'' (ident article)) (tr @ [Call ?c]))
         = (tr @ [Call ?c]) @ added"
      using extends_trace_rehome by blast
    with Inr show ?thesis
      by (simp add: u_migrateArticle_def Let_def and_then_create) (metis prod.collapse)
  qed
qed

text \<open>
  Claim C4 at a concrete article created on 2020-01-01: the payload sent to the
  destination carries no \<^verbatim>\<open>published_at\<close>.
\<close>

theorem article_published_at_example:
  "created_at post = JStr ''2020-01-01T00:00:00Z'' \<and>
   snd (u_migrateArticle (accepting empty_store empty_store) 3 post []) =
     [Call (ArticleCreate 3
        \<lparr>ident = 5, handle = ''hello'', other_fields = [], user_id = JUndefined,
         created_at = JUndefined, deleted_at = JUndefined, published_at = JUndefined,
         blog_id = Some 3\<rparr>)]"
  using article_published_at_undefined [of 3 post "accepting empty_store empty_store" "[]"]
  by (simp add: post_def u_migrateArticle_def article_payload_def Let_def and_then_create
        accepting_def empty_store_def u_getMetafields_def walk_concat rehome_metafields_def)

section \<open>The product payload\<close>

text \<open>
  Claim C5, as stated, at the spec's example product whose variant A is fulfilled by a
  third party: the claim wants \<^verbatim>\<open>fulfillment_service\<close> set to the platform's default
  value in the payload, but the payload carries no \<^verbatim>\<open>fulfillment_service\<close> at all.
\<close>

theorem product_payload_fulfillment_service_absent:
  "map_option (map fulfillment_service)
     (variants (product_payload (accepting shirt_store empty_store) shirt))
     = Some [JUndefined, JUndefined]"
  by (simp add: variants_product_payload shirt_def reset_variant_def Let_def)

text \<open>
  Claim C5, amended: for every variant of a migrated product, the product creation
  payload has the variant's \<^verbatim>\<open>fulfillment_service\<close> removed (so that the platform
  applies its default), its \<^verbatim>\<open>inventory_management\<close> set to \<^verbatim>\<open>'shopify'\<close>, and its
  \<^verbatim>\<open>image_id\<close> removed.
\<close>

theorem product_payload_variant_reset:
  assumes "variants product = Some vs" and "i < length vs"
  shows "\<exists>ws. variants (product_payload this product) = Some ws \<and> length ws = length vs \<and>
           fulfillment_service (ws ! i) = JUndefined \<and>
           inventory_management (ws ! i) = JStr ''shopify'' \<and>
           image_id (ws ! i) = JUndefined"
  using assms by (simp add: variants_product_payload reset_variant_def Let_def)

text \<open>The amended claim C5 on both variants of the example product.\<close>

theorem product_payload_variant_reset_example:
  "fulfillment_service variantA = JStr ''amazon_marketplace_web'' \<and>
   image_id variantA = JNum 77 \<and>
   map_option (map (\<lambda>v. (fulfillment_service v, inventory_management v, image_id v)))
     (variants (product_payload (accepting shirt_store empty_store) shirt))
     = Some [(JUndefined, JStr ''shopify'', JUndefined), (JUndefined, JStr ''shopify'', JUndefined)]"
  using product_payload_variant_reset [of shirt "[variantA, variantB]" 0 "accepting shirt_store empty_store"]
        product_payload_variant_reset [of shirt "[variantA, variantB]" 1 "accepting shirt_store empty_store"]
  by (simp add: variants_product_payload shirt_def reset_variant_def Let_def variantA_def
        variantB_def)

text \<open>
  Claim C8: for every variant of a migrated product that carries a
  \<^verbatim>\<open>compare_at_price\<close> (the code's test: the field is truthy), the creation payload drops
  \<^verbatim>\<open>compare_at_price\<close> exactly when its numeric value is less than or equal to the
  numeric value of \<^verbatim>\<open>price\<close>, and keeps it as it was otherwise.
\<close>

theorem product_payload_compare_at_price:
  assumes "variants product = Some vs" and "i < length vs"
    and "truthy (compare_at_price (vs ! i))"
  shows "\<exists>ws. variants (product_payload this product) = Some ws \<and> length ws = length vs \<and>
           compare_at_price (ws ! i) =
             (if js_le (toNumber (stringToNumber this) (compare_at_price (vs ! i)))
                       (toNumber (stringToNumber this) (price (vs ! i)))
              then JUndefined else compare_at_price (vs ! i))"
  using assms by (simp add: variants_product_payload reset_variant_def Let_def)

text \<open>
  Claim C8 on the spec's example, variants A (price 10, compare-at 8) and B (price 10,
  compare-at 12): A loses \<^verbatim>\<open>compare_at_price\<close> and B keeps it.
\<close>

theorem product_payload_compare_at_price_example:
  "map_option (map (\<lambda>v. (v_title v, price v, compare_at_price v))) (variants shirt)
     = Some [(''A'', JNum 10, JNum 8), (''B'', JNum 10, JNum 12)] \<and>
   map_option (map (\<lambda>v. (v_title v, compare_at_price v)))
     (variants (product_payload (accepting shirt_store empty_store) shirt))
     = Some [(''A'', JUndefined), (''B'', JNum 12)]"
  using product_payload_compare_at_price [of shirt "[variantA, variantB]" 0 "accepting shirt_store empty_store"]
        product_payload_compare_at_price [of shirt "[variantA, variantB]" 1 "accepting shirt_store empty_store"]
  by (simp add: variants_product_payload shirt_def reset_variant_def Let_def variantA_def
        variantB_def)

text \<open>
  Claim C9: a source metafield of a product whose value is not a string (so it has no
  \<^verbatim>\<open>indexOf\<close>), or whose value is falsy, is not among the metafields of the product
  creation payload, whatever its namespace and whether or not it mentions a global id.
\<close>

theorem product_payload_drops_other_values:
  assumes "(\<forall>s. mf_value m \<noteq> JStr s) \<or> \<not> truthy (mf_value m)"
  shows "\<exists>ms. metafields (product_payload this product) = Some ms \<and> m \<notin> set ms"
  using assms by (auto simp: metafields_product_payload portable_value_def split: jsval.splits)

text \<open>
  Claim C9 on a product with three metafields in the namespace \<^verbatim>\<open>custom\<close>: the number
  5 and the empty string are dropped, the string \<^verbatim>\<open>red\<close> is kept.
\<close>

theorem product_payload_drops_other_values_example:
  "u_getMetafields (accepting shirt_store empty_store) ''product'' (ident shirt)
     = [mf_number, mf_blank, mf_colour] \<and>
   not_app mf_number \<and> not_app mf_blank \<and>
   mf_value mf_number = JNum 5 \<and> mf_value mf_blank = JStr [] \<and>
   metafields (product_payload (accepting shirt_store empty_store) shirt) = Some [mf_colour]"
  using product_payload_drops_other_values [of mf_number "accepting shirt_store empty_store" shirt]
        product_payload_drops_other_values [of mf_blank "accepting shirt_store empty_store" shirt]
  by (simp add: metafields_product_payload u_getMetafields_def walk_concat accepting_def
        shirt_store_def empty_store_def shirt_def mf_number_def mf_blank_def mf_colour_def
        not_app_def portable_value_def indexOf_def)

section \<open>App-reserved metafields\<close>

text \<open>The product transform filters the metafields it embeds in the product payload:
  none of them is in a namespace that starts with \<^verbatim>\<open>app--\<close>.\<close>

lemma product_payload_no_app:
  "metafields (product_payload this product) = Some ms \<Longrightarrow> m \<in> set ms \<Longrightarrow>
     \<not> prefix ''app--'' (namespace m)"
  by (auto simp: metafields_product_payload not_app_prefix)

text \<open>
  Claim C1 says that for every entity kind a metafield whose namespace starts with
  \<^verbatim>\<open>app--\<close> is excluded from every destination creation payload.  Only the product
  transform filters: the transforms of a page, a blog, an article, a smart collection and
  a custom collection, and the driver of the shop's metafields, each ask the destination
  to create the source's metafield of namespace \<^verbatim>\<open>app--12345--reviews\<close>.
\<close>

theorem app_metafields_copied:
  "prefix ''app--'' (namespace app_metafield) \<and>
   map namespace (metafield_creates (snd (u_migratePage (accepting app_store empty_store) about [])))
     = [''app--12345--reviews''] \<and>
   map namespace (metafield_creates (snd (u_migrateBlog (accepting app_store empty_store) news [])))
     = [''app--12345--reviews''] \<and>
   map namespace (metafield_creates (snd (u_migrateArticle (accepting app_store empty_store) 3 post [])))
     = [''app--12345--reviews''] \<and>
   map namespace (metafield_creates
       (snd (u_migrateSmartCollection (accepting app_store empty_store) sale [])))
     = [''app--12345--reviews''] \<and>
   map namespace (metafield_creates
       (snd (u_migrateCustomCollection (accepting app_store empty_store) sale Map.empty [])))
     = [''app--12345--reviews''] \<and>
   map namespace (metafield_creates
       (snd (migrateMetafields (accepting app_store empty_store) False True [])))
     = [''app--12345--reviews'']"
  by (simp add: u_migratePage_def u_migrateBlog_def u_migrateArticle_def
        u_migrateSmartCollection_def u_migrateCustomCollection_def migrateMetafields_def
        migrateMetafields_item_def Let_def and_then_create and_then_ret try_catch_def
        rehome_metafields_def u_getMetafields_def walk_concat accepting_def app_store_def
        empty_store_def app_metafield_def ret_def create_def)

section \<open>Skipping what exists\<close>

text \<open>
  Claim C2: for each of the nine drivers and every source record whose natural key is
  present in the destination index (the index maps the key to a platform id, which is
  not 0; for files and menus it maps the key to the destination node; for shop
  metafields the destination listing holds a metafield of the same key and namespace),
  when \<^verbatim>\<open>skipExisting\<close> is true and \<^verbatim>\<open>deleteFirst\<close> is
  false, the driver's callback returns on that record without issuing any call: no
  create, no delete, nothing that could change the matching destination record.  Each
  driver hands every source record to this callback (lemmas \<open>migratePages_records\<close>
  and its siblings), and an index built from a destination listing maps the handle of
  every record of the listing to an id of the listing (lemma \<open>index_pages_holds\<close>).
\<close>

theorem skip_existing_issues_nothing:
  "(destinationPages (handle page) = Some pageId \<and> pageId \<noteq> 0 \<longrightarrow>
      migratePages_item this False True destinationPages page tr = (Inr (), tr)) \<and>
   (destinationProducts (handle product) = Some productId \<and> productId \<noteq> 0 \<longrightarrow>
      migrateProducts_item this False True destinationProducts product tr = (Inr (), tr)) \<and>
   (find (\<lambda>f. key f = key metafield \<and> namespace f = namespace metafield)
        destinationMetafields = Some destinationMetafield \<longrightarrow>
      migrateMetafields_item this False True destinationMetafields metafield tr
        = (Inr (), tr)) \<and>
   (destinationSmart (handle smart) = Some smartId \<and> smartId \<noteq> 0 \<longrightarrow>
      migrateSmartCollections_item this False True destinationSmart smart tr = (Inr (), tr)) \<and>
   (destinationCustom (handle custom) = Some customId \<and> customId \<noteq> 0 \<longrightarrow>
      migrateCustomCollections_item this False True destinationCustom productMap custom tr
        = (Inr (), tr)) \<and>
   (destinationBlogs (handle blog) = Some blogId \<and> blogId \<noteq> 0 \<longrightarrow>
      migrateBlogs_item this False True destinationBlogs blog tr = (Inr (), tr)) \<and>
   (destinationArticles (handle article) = Some articleId \<and> articleId \<noteq> 0 \<longrightarrow>
      migrateArticles_item this False True destinationBlogId destinationArticles article tr
        = (Inr (), tr)) \<and>
   (fileUrl_of sourceFile = Some fileUrl \<and> destinationFiles fileUrl = Some destinationFile \<longrightarrow>
      migrateFiles_item this False True destinationFiles sourceFile tr = (Inr (), tr)) \<and>
   (destinationMenus (menu_handle menu) = Some destinationMenu \<longrightarrow>
      migrateMenus_item this False True destinationMenus menu tr = (Inr (), tr))"
proof (intro conjI impI)
  assume "destinationPages (handle page) = Some pageId \<and> pageId \<noteq> 0"
  then show "migratePages_item this False True destinationPages page tr = (Inr (), tr)"
    by (simp add: migratePages_item_def and_then_ret ret_def split: option.splits)
next
  assume "destinationProducts (handle product) = Some productId \<and> productId \<noteq> 0"
  then show "migrateProducts_item this False True destinationProducts product tr = (Inr (), tr)"
    by (simp add: migrateProducts_item_def and_then_ret ret_def split: option.splits)
next
  assume "find (\<lambda>f. key f = key metafield \<and> namespace f = namespace metafield)
            destinationMetafields = Some destinationMetafield"
  then show "migrateMetafields_item this False True destinationMetafields metafield tr
               = (Inr (), tr)"
    by (auto simp: migrateMetafields_item_def Let_def and_then_ret ret_def)
next
  assume "destinationSmart (handle smart) = Some smartId \<and> smartId \<noteq> 0"
  then show "migrateSmartCollections_item this False True destinationSmart smart tr
               = (Inr (), tr)"
    by (simp add: migrateSmartCollections_item_def and_then_ret ret_def split: option.splits)
next
  assume "destinationCustom (handle custom) = Some customId \<and> customId \<noteq> 0"
  then show "migrateCustomCollections_item this False True destinationCustom productMap
               custom tr = (Inr (), tr)"
    by (simp add: migrateCustomCollections_item_def and_then_ret ret_def split: option.splits)
next
  assume "destinationBlogs (handle blog) = Some blogId \<and> blogId \<noteq> 0"
  then show "migrateBlogs_item this False True destinationBlogs blog tr = (Inr (), tr)"
    by (simp add: migrateBlogs_item_def and_then_ret ret_def split: option.splits)
next
  assume "destinationArticles (handle article) = Some articleId \<and> articleId \<noteq> 0"
  then show "migrateArticles_item this False True destinationBlogId destinationArticles
               article tr = (Inr (), tr)"
    by (simp add: migrateArticles_item_def and_then_ret ret_def split: option.splits)
next
  assume "fileUrl_of sourceFile = Some fileUrl \<and> destinationFiles fileUrl = Some destinationFile"
  then show "migrateFiles_item this False True destinationFiles sourceFile tr = (Inr (), tr)"
    by (auto simp: migrateFiles_item_def and_then_ret ret_def)
next
  assume "destinationMenus (menu_handle menu) = Some destinationMenu"
  then show "migrateMenus_item this False True destinationMenus menu tr = (Inr (), tr)"
    by (auto simp: migrateMenus_item_def and_then_ret ret_def)
qed

text \<open>Claim C2 on one record per driver whose key the destination index holds.\<close>

theorem skip_existing_example:
  "([''about'' \<mapsto> 7] (handle about) = Some (7::nat) \<and>
    [''shirt'' \<mapsto> 70] (handle shirt) = Some (70::nat) \<and>
    find (\<lambda>f. key f = key mf_colour \<and> namespace f = namespace mf_colour)
      [mf_colour\<lparr>mf_id := Some 99\<rparr>] = Some (mf_colour\<lparr>mf_id := Some 99\<rparr>) \<and>
    [''sale'' \<mapsto> 40] (handle sale) = Some (40::nat) \<and>
    [''news'' \<mapsto> 2] (handle news) = Some (2::nat) \<and>
    [''hello'' \<mapsto> 50] (handle post) = Some (50::nat) \<and>
    fileUrl_of logo = Some ''https://cdn.example/logo.pdf'' \<and>
    [''https://cdn.example/logo.pdf'' \<mapsto> logo\<lparr>file_id := ''gid://shopify/GenericFile/9''\<rparr>]
      ''https://cdn.example/logo.pdf'' = Some (logo\<lparr>file_id := ''gid://shopify/GenericFile/9''\<rparr>) \<and>
    [''main-menu'' \<mapsto> main_menu\<lparr>menu_id := ''gid://shopify/Menu/9''\<rparr>]
      (menu_handle main_menu) = Some (main_menu\<lparr>menu_id := ''gid://shopify/Menu/9''\<rparr>)) \<and>
   (migratePages_item (accepting shirt_store empty_store) False True [''about'' \<mapsto> 7] about []
     = (Inr (), []) \<and>
   migrateProducts_item (accepting shirt_store empty_store) False True [''shirt'' \<mapsto> 70]
     shirt [] = (Inr (), []) \<and>
   migrateMetafields_item (accepting shirt_store empty_store) False True
     [mf_colour\<lparr>mf_id := Some 99\<rparr>] mf_colour [] = (Inr (), []) \<and>
   migrateSmartCollections_item (accepting shirt_store empty_store) False True
     [''sale'' \<mapsto> 40] sale [] = (Inr (), []) \<and>
   migrateCustomCollections_item (accepting shirt_store empty_store) False True
     [''sale'' \<mapsto> 40] Map.empty sale [] = (Inr (), []) \<and>
   migrateBlogs_item (accepting shirt_store empty_store) False True [''news'' \<mapsto> 2] news []
     = (Inr (), []) \<and>
   migrateArticles_item (accepting shirt_store empty_store) False True 2 [''hello'' \<mapsto> 50]
     post [] = (Inr (), []) \<and>
   migrateFiles_item (accepting shirt_store empty_store) False True
     [''https://cdn.example/logo.pdf'' \<mapsto> logo\<lparr>file_id := ''gid://shopify/GenericFile/9''\<rparr>]
     logo [] = (Inr (), []) \<and>
   migrateMenus_item (accepting shirt_store empty_store) False True
     [''main-menu'' \<mapsto> main_menu\<lparr>menu_id := ''gid://shopify/Menu/9''\<rparr>] main_menu []
     = (Inr (), []))"
proof -
  have hyps:
    "[''about'' \<mapsto> 7] (handle about) = Some (7::nat) \<and>
    [''shirt'' \<mapsto> 70] (handle shirt) = Some (70::nat) \<and>
    find (\<lambda>f. key f = key mf_colour \<and> namespace f = namespace mf_colour)
      [mf_colour\<lparr>mf_id := Some 99\<rparr>] = Some (mf_colour\<lparr>mf_id := Some 99\<rparr>) \<and>
    [''sale'' \<mapsto> 40] (handle sale) = Some (40::nat) \<and>
    [''news'' \<mapsto> 2] (handle news) = Some (2::nat) \<and>
    [''hello'' \<mapsto> 50] (handle post) = Some (50::nat) \<and>
    fileUrl_of logo = Some ''https://cdn.example/logo.pdf'' \<and>
    [''https://cdn.example/logo.pdf'' \<mapsto> logo\<lparr>file_id := ''gid://shopify/GenericFile/9''\<rparr>]
      ''https://cdn.example/logo.pdf'' = Some (logo\<lparr>file_id := ''gid://shopify/GenericFile/9''\<rparr>) \<and>
    [''main-menu'' \<mapsto> main_menu\<lparr>menu_id := ''gid://shopify/Menu/9''\<rparr>]
      (menu_handle main_menu) = Some (main_menu\<lparr>menu_id := ''gid://shopify/Menu/9''\<rparr>)"
    by (simp add: about_def shirt_def sale_def news_def post_def logo_def main_menu_def
          mf_colour_def fileUrl_of_def)
  have runs:
    "migratePages_item (accepting shirt_store empty_store) False True [''about'' \<mapsto> 7] about []
     = (Inr (), []) \<and>
   migrateProducts_item (accepting shirt_store empty_store) False True [''shirt'' \<mapsto> 70]
     shirt [] = (Inr (), []) \<and>
   migrateMetafields_item (accepting shirt_store empty_store) False True
     [mf_colour\<lparr>mf_id := Some 99\<rparr>] mf_colour [] = (Inr (), []) \<and>
   migrateSmartCollections_item (accepting shirt_store empty_store) False True
     [''sale'' \<mapsto> 40] sale [] = (Inr (), []) \<and>
   migrateCustomCollections_item (accepting shirt_store empty_store) False True
     [''sale'' \<mapsto> 40] Map.empty sale [] = (Inr (), []) \<and>
   migrateBlogs_item (accepting shirt_store empty_store) False True [''news'' \<mapsto> 2] news []
     = (Inr (), []) \<and>
   migrateArticles_item (accepting shirt_store empty_store) False True 2 [''hello'' \<mapsto> 50]
     post [] = (Inr (), []) \<and>
   migrateFiles_item (accepting shirt_store empty_store) False True
     [''https://cdn.example/logo.pdf'' \<mapsto> logo\<lparr>file_id := ''gid://shopify/GenericFile/9''\<rparr>]
     logo [] = (Inr (), []) \<and>
   migrateMenus_item (accepting shirt_store empty_store) False True
     [''main-menu'' \<mapsto> main_menu\<lparr>menu_id := ''gid://shopify/Menu/9''\<rparr>] main_menu []
     = (Inr (), [])"
    using skip_existing_issues_nothing
    [where destinationPages = "[''about'' \<mapsto> 7]" and page = about and pageId = 7
       and this = "accepting shirt_store empty_store" and tr = "[]"
       and destinationProducts = "[''shirt'' \<mapsto> 70]" and product = shirt and productId = 70
       and destinationMetafields = "[mf_colour\<lparr>mf_id := Some 99\<rparr>]" and metafield = mf_colour
       and destinationSmart = "[''sale'' \<mapsto> 40]" and smart = sale and smartId = 40
       and destinationCustom = "[''sale'' \<mapsto> 40]" and custom = sale and customId = 40
       and productMap = Map.empty
       and destinationBlogs = "[''news'' \<mapsto> 2]" and blog = news and blogId = 2
       and destinationArticles = "[''hello'' \<mapsto> 50]" and article = post and articleId = 50
       and destinationBlogId = 2
       and sourceFile = logo and fileUrl = "''https://cdn.example/logo.pdf''"
       and destinationFiles = "[''https://cdn.example/logo.pdf'' \<mapsto> logo\<lparr>file_id := ''gid://shopify/GenericFile/9''\<rparr>]"
       and destinationMenus = "[''main-menu'' \<mapsto> main_menu\<lparr>menu_id := ''gid://shopify/Menu/9''\<rparr>]"
       and menu = main_menu
       and destinationMetafield = "mf_colour\<lparr>mf_id := Some 99\<rparr>"
       and destinationFile = "logo\<lparr>file_id := ''gid://shopify/GenericFile/9''\<rparr>"
       and destinationMenu = "main_menu\<lparr>menu_id := ''gid://shopify/Menu/9''\<rparr>"]
    by (simp add: about_def shirt_def sale_def news_def post_def logo_def main_menu_def
          mf_colour_def fileUrl_of_def)
  show ?thesis
    by (rule conjI [OF hyps runs])
qed

section \<open>Replacing what exists\<close>




section \<open>Listings walked by the drivers\<close>

text \<open>
  Claim C6 says that every paged listing a driver uses is walked to exhaustion, the blog
  listings of the article driver included.  The loops \<open>walk\<close>, \<open>index_pages\<close> and
  \<open>forEachPage\<close> do consume every page (lemmas \<open>walk_concat\<close>, \<open>index_pages_concat\<close>,
  \<open>forEachPage_concat\<close>), but the article driver reads one page of blogs on each side.
  With the destination blog \<^verbatim>\<open>news\<close> on the second page of the listing, which the
  blog driver's index does reach, the article driver finds no matching blog and migrates
  nothing; with the same two blogs on one page it creates the article.  (The menu
  driver likewise asks for one page of 250 menus on each side, and the file driver's
  destination index stays empty for another reason, lemma
  \<open>destinationFiles_walk_untyped\<close>.)
\<close>

theorem article_driver_reads_one_page_of_blogs:
  "walk (blog_list two_page_destination) =
     [\<lparr>ident = 1, handle = ''journal'', other_fields = []\<rparr>,
      \<lparr>ident = 2, handle = ''news'', other_fields = []\<rparr>] \<and>
   index_pages (blog_list two_page_destination) Map.empty ''news'' = Some 2 \<and>
   matchingBlogs (accepting blog_store two_page_destination) = [] \<and>
   migrateArticles (accepting blog_store two_page_destination) False True [] = (Inr (), []) \<and>
   matchingBlogs (accepting blog_store one_page_destination) = [news] \<and>
   migrateArticles (accepting blog_store one_page_destination) False True [] =
     (Inr (), [Call (ArticleCreate 2 (article_payload 2 post))])"
  by (simp add: walk_concat index_pages_concat index_entry_def matchingBlogs_def
        migrateArticles_def migrateArticles_blog_def migrateArticles_item_def
        forEachPage_concat u_migrateArticle_def rehome_metafields_def u_getMetafields_def
        and_then_create and_then_ret Let_def
        accepting_def blog_store_def two_page_destination_def one_page_destination_def
        empty_store_def news_def)

section \<open>User errors of GraphQL mutations\<close>

text \<open>
  Claim C7: for each of the four GraphQL mutations (file create, menu create, file
  delete, menu delete), when the response carries a non-empty \<^verbatim>\<open>userErrors\<close> list, a
  create throws an error whose message ends with the first user error's message and
  issues nothing further, while a delete returns normally after handing the failure to
  \<^verbatim>\<open>this.error\<close> (printed when the verbosity is at least 1).
\<close>

theorem userErrors_create_throws_delete_logs:
  "(fileUrl_of file = Some fileUrl \<and> fileUrl \<noteq> [] \<and>
    dest_graphql this tr (FileCreate fileUrl (alt file)) = Inr (Some payload) \<and>
    userErrors payload = ue # ues \<longrightarrow>
      u_migrateFile this file tr =
        (Inl (Error (''[FILE '' @ file_id file @ ''] Failed to create: '' @ message ue)),
         tr @ [Call (FileCreate fileUrl (alt file))])) \<and>
   (dest_graphql this tr
      (MenuCreate (menu_handle menu) (menu_title menu)
         (map (\<lambda>item. (item_title item, item_url item, item_type item)) (items menu)))
      = Inr (Some payload) \<and>
    userErrors payload = ue # ues \<longrightarrow>
      u_migrateMenu this menu tr =
        (Inl (Error (''[MENU '' @ menu_id menu @ ''] Failed to create: '' @ message ue)),
         tr @ [Call (MenuCreate (menu_handle menu) (menu_title menu)
                  (map (\<lambda>item. (item_title item, item_url item, item_type item))
                     (items menu)))])) \<and>
   (dest_graphql this tr (FileDelete fileId) = Inr (Some payload) \<and>
    userErrors payload = ue # ues \<longrightarrow>
      u_deleteFile this fileId tr =
        (Inr (),
         tr @ Call (FileDelete fileId) #
           (if verbosity this \<ge> 1
            then [ConsoleError (''Failed to delete file '' @ fileId @ '': '' @ message ue)]
            else []))) \<and>
   (dest_graphql this tr (MenuDelete menuId) = Inr (Some payload) \<and>
    userErrors payload = ue # ues \<longrightarrow>
      u_deleteMenu this menuId tr =
        (Inr (),
         tr @ Call (MenuDelete menuId) #
           (if verbosity this \<ge> 1
            then [ConsoleError (''Failed to delete menu '' @ menuId @ '': '' @ message ue)]
            else [])))"
  by (simp add: u_migrateFile_def u_migrateMenu_def u_deleteFile_def u_deleteMenu_def
        and_then_graphql throw_def error_def)

text \<open>Claim C7 on a destination that answers every mutation with the user error
  \<^verbatim>\<open>Handle has already been taken\<close>.\<close>

theorem userErrors_example:
  "u_migrateFile complaining logo [] =
     (Inl (Error ''[FILE gid://shopify/GenericFile/1] Failed to create: Handle has already been taken''),
      [Call (FileCreate ''https://cdn.example/logo.pdf'' (JStr ''Logo''))]) \<and>
   u_migrateMenu complaining main_menu [] =
     (Inl (Error ''[MENU gid://shopify/Menu/1] Failed to create: Handle has already been taken''),
      [Call (MenuCreate ''main-menu'' (JStr ''Main menu'') [])]) \<and>
   u_deleteFile complaining ''gid://shopify/GenericFile/9'' [] =
     (Inr (),
      [Call (FileDelete ''gid://shopify/GenericFile/9''),
       ConsoleError ''Failed to delete file gid://shopify/GenericFile/9: Handle has already been taken'']) \<and>
   u_deleteMenu complaining ''gid://shopify/Menu/9'' [] =
     (Inr (),
      [Call (MenuDelete ''gid://shopify/Menu/9''),
       ConsoleError ''Failed to delete menu gid://shopify/Menu/9: Handle has already been taken''])"
  using userErrors_create_throws_delete_logs
          [of logo "''https://cdn.example/logo.pdf''" complaining "[]"
              "\<lparr>result_ids = [], userErrors = [taken]\<rparr>" taken "[]" main_menu
              "''gid://shopify/GenericFile/9''" "''gid://shopify/Menu/9''"]
  by (simp add: complaining_def accepting_def logo_def main_menu_def taken_def fileUrl_of_def)

section \<open>The index of the custom-collection driver\<close>



end
